theory Spec2Isabelle
  imports Complex_Main
begin

section \<open>Second-hand platform: storage layer, delete paths and image importer\<close>

text \<open>
  A shallow embedding of the storage core of \<^verbatim>\<open>main.py\<close>: the identifier allocator
  \<^verbatim>\<open>ensure_int_id\<close>, the dataclasses \<^verbatim>\<open>User\<close> and \<^verbatim>\<open>Product\<close>, the class
  \<^verbatim>\<open>Storage\<close> with its two JSON documents, the three delete handlers of
  \<^verbatim>\<open>SecondHandApp\<close> and the image importer \<^verbatim>\<open>copy_image_to_storage\<close>.

  Python's \<^verbatim>\<open>int\<close> is unbounded and is modelled by \<^typ>\<open>int\<close>. A Python \<^verbatim>\<open>str\<close> is
  modelled by \<^typ>\<open>string\<close>, read as the UTF-8 encoding of the text (the encoding the
  documents are written in), so text outside ASCII is a longer list of bytes. A Python
  \<^verbatim>\<open>float\<close> is a finite number, an infinity or not-a-number.
  Every exception of the source is a value of the type \<open>error\<close>.
\<close>

datatype error =
  ValueError | TypeError | IndexError | JSONDecodeError | OSError | UnicodeEncodeError

subsection \<open>Constants / Helpers\<close>

definition USERS_FILE :: string where
  "USERS_FILE = ''users.json''"

definition PRODUCTS_FILE :: string where
  "PRODUCTS_FILE = ''products.json''"

definition IMAGES_DIR :: string where
  "IMAGES_DIR = ''images''"

text \<open>
  The builtin \<^verbatim>\<open>max\<close> on a list: it raises \<^verbatim>\<open>ValueError\<close> on the empty list and
  otherwise walks the list from the left, keeping the first largest element.
\<close>

fun py_max :: "int list \<Rightarrow> error + int" where
  "py_max [] = Inl ValueError"
| "py_max (x # xs) = Inr (fold (\<lambda>y m. if m < y then y else m) xs x)"

text \<open>
  \<^verbatim>\<open>def ensure_int_id(existing_ids): return (max(existing_ids) + 1) if existing_ids else 1\<close>
\<close>

definition ensure_int_id :: "int list \<Rightarrow> error + int" where
  "ensure_int_id existing_ids =
     (if existing_ids \<noteq> []
      then (case py_max existing_ids of Inl e \<Rightarrow> Inl e | Inr m \<Rightarrow> Inr (m + 1))
      else Inr 1)"

text \<open>
  Exceptions propagate: the first error of a sequence of calls is the result.
\<close>

definition err_bind :: "error + 'a \<Rightarrow> ('a \<Rightarrow> error + 'b) \<Rightarrow> error + 'b" where
  "err_bind r f = (case r of Inl e \<Rightarrow> Inl e | Inr v \<Rightarrow> f v)"

fun traverse :: "('a \<Rightarrow> error + 'b) \<Rightarrow> 'a list \<Rightarrow> error + 'b list" where
  "traverse f [] = Inr []"
| "traverse f (x # xs) =
     err_bind (f x) (\<lambda>y. err_bind (traverse f xs) (\<lambda>ys. Inr (y # ys)))"

lemma traverse_cong [fundef_cong]:
  "xs = ys \<Longrightarrow> (\<And>x. x \<in> set ys \<Longrightarrow> f x = g x) \<Longrightarrow> traverse f xs = traverse g ys"
  by (induction ys arbitrary: xs) auto

subsection \<open>JSON values\<close>

text \<open>
  A Python \<^verbatim>\<open>float\<close>: a finite number, an infinity, or not-a-number. The operator
  \<^verbatim>\<open>==\<close> holds between two floats that are the same number; it never holds when one
  of them is not-a-number.
\<close>

datatype pyfloat = Finite real | PosInf | NegInf | NaN


text \<open>
  The objects that \<^verbatim>\<open>json.load\<close> builds and \<^verbatim>\<open>json.dump\<close> accepts: \<^verbatim>\<open>None\<close>, \<^verbatim>\<open>bool\<close>,
  \<^verbatim>\<open>int\<close>, \<^verbatim>\<open>float\<close>, \<^verbatim>\<open>str\<close>, \<^verbatim>\<open>list\<close> and \<^verbatim>\<open>dict\<close> with string keys. A \<^verbatim>\<open>dict\<close>
  is the list of its items in insertion order.
\<close>

datatype json =
    JNull
  | JBool bool
  | JInt int
  | JFloat pyfloat
  | JStr string
  | JList "json list"
  | JObj "(string \<times> json) list"

type_synonym pydict = "(string \<times> json) list"

subsection \<open>JSON documents\<close>

text \<open>
  A document as \<^verbatim>\<open>json.dump(..., ensure_ascii=False, indent=2)\<close> writes it and
  \<^verbatim>\<open>json.load\<close> reads it. The brackets, commas and indentation are kept as the tree
  they spell, and a number is kept as its value (\<^verbatim>\<open>NaN\<close> and \<^verbatim>\<open>Infinity\<close> are written
  and read back as such; that the digits of a finite float read back as the same float
  is taken from the library). A string, also a key of an object, is the text of its
  literal, quotes and escapes included, as the encoder writes and the scanner reads it.
  An object is taken to spell each key once.
\<close>

datatype jtext =
    TNull
  | TBool bool
  | TInt int
  | TFloat pyfloat
  | TStr string
  | TList "jtext list"
  | TObj "(string \<times> jtext) list"

text \<open>
  \<^verbatim>\<open>json.encoder.py_encode_basestring\<close>: the backslash, the double quote and the control
  characters below \<open>0x20\<close> are escaped (\<^verbatim>\<open>ESCAPE_DCT\<close>); every other character, the ones
  outside ASCII included, is written as it is.
\<close>

definition hex_digit :: "nat \<Rightarrow> char" where
  "hex_digit n = ''0123456789abcdef'' ! n"

definition escape_char :: "char \<Rightarrow> string" where
  "escape_char c =
     (if c = CHR 0x5C then [CHR 0x5C, CHR 0x5C]
      else if c = CHR 0x22 then [CHR 0x5C, CHR 0x22]
      else if c = CHR 0x08 then [CHR 0x5C, CHR ''b'']
      else if c = CHR 0x0C then [CHR 0x5C, CHR ''f'']
      else if c = CHR 0x0A then [CHR 0x5C, CHR ''n'']
      else if c = CHR 0x0D then [CHR 0x5C, CHR ''r'']
      else if c = CHR 0x09 then [CHR 0x5C, CHR ''t'']
      else if (of_char c :: nat) < 0x20
        then [CHR 0x5C, CHR ''u'', CHR ''0'', CHR ''0'',
              hex_digit (of_char c div 16), hex_digit (of_char c mod 16)]
      else [c])"

definition py_encode_basestring :: "string \<Rightarrow> string" where
  "py_encode_basestring s = CHR 0x22 # concat (map escape_char s) @ [CHR 0x22]"

text \<open>
  \<^verbatim>\<open>json.decoder.py_scanstring\<close> with \<^verbatim>\<open>strict=True\<close>, from the character after the opening
  quote: it returns the decoded string and what follows the closing quote. A unicode
  escape takes four hexadecimal digits, a high surrogate followed by a low one is one
  code point, and a code point is appended as its UTF-8 bytes.
\<close>

definition BACKSLASH :: "char \<Rightarrow> char option" where
  "BACKSLASH esc =
     (if esc = CHR 0x22 then Some (CHR 0x22)
      else if esc = CHR 0x5C then Some (CHR 0x5C)
      else if esc = CHR ''/'' then Some (CHR ''/'')
      else if esc = CHR ''b'' then Some (CHR 0x08)
      else if esc = CHR ''f'' then Some (CHR 0x0C)
      else if esc = CHR ''n'' then Some (CHR 0x0A)
      else if esc = CHR ''r'' then Some (CHR 0x0D)
      else if esc = CHR ''t'' then Some (CHR 0x09)
      else None)"

definition hex_value :: "char \<Rightarrow> nat option" where
  "hex_value c =
     (let n = (of_char c :: nat) in
      if 0x30 \<le> n \<and> n \<le> 0x39 then Some (n - 0x30)
      else if 0x61 \<le> n \<and> n \<le> 0x66 then Some (n - 0x61 + 10)
      else if 0x41 \<le> n \<and> n \<le> 0x46 then Some (n - 0x41 + 10)
      else None)"

definition hex4 :: "char \<Rightarrow> char \<Rightarrow> char \<Rightarrow> char \<Rightarrow> nat option" where
  "hex4 a b c d =
     (case (hex_value a, hex_value b, hex_value c, hex_value d) of
        (Some x, Some y, Some z, Some w) \<Rightarrow> Some (((x * 16 + y) * 16 + z) * 16 + w)
      | _ \<Rightarrow> None)"

definition utf8 :: "nat \<Rightarrow> string" where
  "utf8 n =
     (if n < 0x80 then [char_of n]
      else if n < 0x800 then [char_of (0xC0 + n div 64), char_of (0x80 + n mod 64)]
      else if n < 0x10000 then
        [char_of (0xE0 + n div 4096), char_of (0x80 + n div 64 mod 64), char_of (0x80 + n mod 64)]
      else
        [char_of (0xF0 + n div 262144), char_of (0x80 + n div 4096 mod 64),
         char_of (0x80 + n div 64 mod 64), char_of (0x80 + n mod 64)])"

fun py_scanstring :: "string \<Rightarrow> error + string \<times> string" where
  "py_scanstring [] = Inl JSONDecodeError"
| "py_scanstring (c # cs) =
     (if c = CHR 0x22 then Inr ([], cs)
      else if c \<noteq> CHR 0x5C then
        (if (of_char c :: nat) < 0x20 then Inl JSONDecodeError
         else err_bind (py_scanstring cs) (\<lambda>r. Inr (c # fst r, snd r)))
      else
        (case cs of
           [] \<Rightarrow> Inl JSONDecodeError
         | esc # cs1 \<Rightarrow>
             if esc \<noteq> CHR ''u'' then
               (case BACKSLASH esc of
                  None \<Rightarrow> Inl JSONDecodeError
                | Some ch \<Rightarrow> err_bind (py_scanstring cs1) (\<lambda>r. Inr (ch # fst r, snd r)))
             else
               (case cs1 of
                  a # b # c # d # cs2 \<Rightarrow>
                    (case hex4 a b c d of
                       None \<Rightarrow> Inl JSONDecodeError
                     | Some uni \<Rightarrow>
                         if 0xD800 \<le> uni \<and> uni \<le> 0xDBFF \<and> take 2 cs2 = [CHR 0x5C, CHR ''u'']
                         then
                           (case cs2 of
                              bs # u # a2 # b2 # c2 # d2 # cs3 \<Rightarrow>
                                (case hex4 a2 b2 c2 d2 of
                                   None \<Rightarrow> Inl JSONDecodeError
                                 | Some uni2 \<Rightarrow>
                                     if 0xDC00 \<le> uni2 \<and> uni2 \<le> 0xDFFF
                                     then err_bind (py_scanstring cs3) (\<lambda>r.
                                       Inr (utf8 (0x10000 + (uni - 0xD800) * 1024 + (uni2 - 0xDC00))
                                              @ fst r, snd r))
                                     else err_bind (py_scanstring cs2) (\<lambda>r.
                                       Inr (utf8 uni @ fst r, snd r)))
                            | _ \<Rightarrow> Inl JSONDecodeError)
                         else err_bind (py_scanstring cs2) (\<lambda>r. Inr (utf8 uni @ fst r, snd r)))
                | _ \<Rightarrow> Inl JSONDecodeError)))"


text \<open>A string literal of a document: an opening quote, then the scanned string, then nothing.\<close>

definition load_string :: "string \<Rightarrow> error + string" where
  "load_string lit =
     (case lit of
        [] \<Rightarrow> Inl JSONDecodeError
      | q # body \<Rightarrow>
          if q \<noteq> CHR 0x22 then Inl JSONDecodeError
          else err_bind (py_scanstring body) (\<lambda>r.
                 if snd r = [] then Inr (fst r) else Inl JSONDecodeError))"

text \<open>\<^verbatim>\<open>json.dump\<close> and \<^verbatim>\<open>json.load\<close> on the tree.\<close>

fun dump_json :: "json \<Rightarrow> jtext" where
  "dump_json JNull = TNull"
| "dump_json (JBool b) = TBool b"
| "dump_json (JInt i) = TInt i"
| "dump_json (JFloat f) = TFloat f"
| "dump_json (JStr s) = TStr (py_encode_basestring s)"
| "dump_json (JList xs) = TList (map dump_json xs)"
| "dump_json (JObj kvs) =
     TObj (map (\<lambda>kv. (py_encode_basestring (fst kv), dump_json (snd kv))) kvs)"

fun load_json :: "jtext \<Rightarrow> error + json" where
  "load_json TNull = Inr JNull"
| "load_json (TBool b) = Inr (JBool b)"
| "load_json (TInt i) = Inr (JInt i)"
| "load_json (TFloat f) = Inr (JFloat f)"
| "load_json (TStr lit) = err_bind (load_string lit) (\<lambda>s. Inr (JStr s))"
| "load_json (TList xs) = err_bind (traverse load_json xs) (\<lambda>vs. Inr (JList vs))"
| "load_json (TObj kvs) =
     err_bind (traverse (\<lambda>kv. err_bind (load_string (fst kv)) (\<lambda>k.
                               err_bind (load_json (snd kv)) (\<lambda>v. Inr (k, v)))) kvs)
       (\<lambda>ms. Inr (JObj ms))"



text \<open>
  Iterating a loaded value, as the comprehensions \<^verbatim>\<open>for u in data\<close> do: a list yields
  its elements, a dict its keys, a string its characters; anything else is not iterable.
\<close>

fun py_iter :: "json \<Rightarrow> error + json list" where
  "py_iter (JList xs) = Inr xs"
| "py_iter (JObj kvs) = Inr (map (\<lambda>kv. JStr (fst kv)) kvs)"
| "py_iter (JStr s) = Inr (map (\<lambda>c. JStr [c]) s)"
| "py_iter _ = Inl TypeError"

text \<open>
  The records are typed as the dataclasses are annotated. The constructors of the
  source check no types; here a field value of another type than the annotated one is
  a \<^verbatim>\<open>TypeError\<close> of the decoder, so a document is one of the layout that Storage
  writes.
\<close>

fun as_int :: "json \<Rightarrow> error + int" where
  "as_int (JInt i) = Inr i"
| "as_int _ = Inl TypeError"

fun as_str :: "json \<Rightarrow> error + string" where
  "as_str (JStr s) = Inr s"
| "as_str _ = Inl TypeError"

fun as_bool :: "json \<Rightarrow> error + bool" where
  "as_bool (JBool b) = Inr b"
| "as_bool _ = Inl TypeError"

fun as_float :: "json \<Rightarrow> error + pyfloat" where
  "as_float (JFloat f) = Inr f"
| "as_float (JInt i) = Inr (Finite (of_int i))"
| "as_float _ = Inl TypeError"

fun as_dict :: "json \<Rightarrow> error + pydict" where
  "as_dict (JObj kvs) = Inr kvs"
| "as_dict _ = Inl TypeError"

fun as_list :: "(json \<Rightarrow> error + 'a) \<Rightarrow> json \<Rightarrow> error + 'a list" where
  "as_list f (JList xs) = traverse f xs"
| "as_list f _ = Inl TypeError"

text \<open>
  Keyword arguments \<^verbatim>\<open>**u\<close>: a required field that is missing and a key that names no
  field are both a \<^verbatim>\<open>TypeError\<close>; a missing field with a default takes the default.
\<close>

definition required :: "pydict \<Rightarrow> string \<Rightarrow> (json \<Rightarrow> error + 'a) \<Rightarrow> error + 'a" where
  "required kw k f = (case map_of kw k of None \<Rightarrow> Inl TypeError | Some v \<Rightarrow> f v)"

definition optional :: "pydict \<Rightarrow> string \<Rightarrow> (json \<Rightarrow> error + 'a) \<Rightarrow> 'a \<Rightarrow> error + 'a" where
  "optional kw k f d = (case map_of kw k of None \<Rightarrow> Inr d | Some v \<Rightarrow> f v)"

subsection \<open>Data Models\<close>

record User =
  userId :: int
  email :: string
  phone :: string
  password :: string
  nickname :: string
  avatar :: string
  is_admin :: bool
  favorites :: "int list"

text \<open>
  A comment of a product is a \<^verbatim>\<open>dict\<close> with the keys \<^verbatim>\<open>userId\<close>, \<^verbatim>\<open>nickname\<close> and
  \<^verbatim>\<open>text\<close>, in that order (\<^verbatim>\<open>post_comment\<close>); it is typed like the dataclasses.
\<close>

record Comment =
  comment_userId :: int
  comment_nickname :: string
  comment_text :: string

record Product =
  productId :: int
  name :: string
  category :: string
  description :: string
  price :: pyfloat
  images :: "string list"
  sellerId :: int
  comments :: "Comment list"


definition User_fields :: "string list" where
  "User_fields = [''userId'', ''email'', ''phone'', ''password'', ''nickname'', ''avatar'',
     ''is_admin'', ''favorites'']"

definition Product_fields :: "string list" where
  "Product_fields = [''productId'', ''name'', ''category'', ''description'', ''price'',
     ''images'', ''sellerId'', ''comments'']"

text \<open>\<^verbatim>\<open>User(**u)\<close>, with the defaults \<^verbatim>\<open>avatar=""\<close>, \<^verbatim>\<open>is_admin=False\<close>, \<^verbatim>\<open>favorites=[]\<close>.\<close>

definition User_of_kwargs :: "pydict \<Rightarrow> error + User" where
  "User_of_kwargs kw =
     (if \<not> list_all (\<lambda>kv. fst kv \<in> set User_fields) kw then Inl TypeError
      else
        err_bind (required kw ''userId'' as_int) (\<lambda>uid.
        err_bind (required kw ''email'' as_str) (\<lambda>em.
        err_bind (required kw ''phone'' as_str) (\<lambda>ph.
        err_bind (required kw ''password'' as_str) (\<lambda>pw.
        err_bind (required kw ''nickname'' as_str) (\<lambda>nn.
        err_bind (optional kw ''avatar'' as_str []) (\<lambda>av.
        err_bind (optional kw ''is_admin'' as_bool False) (\<lambda>ad.
        err_bind (optional kw ''favorites'' (as_list as_int) []) (\<lambda>fv.
          Inr \<lparr>userId = uid, email = em, phone = ph, password = pw, nickname = nn,
               avatar = av, is_admin = ad, favorites = fv\<rparr>)))))))))"

definition Comment_fields :: "string list" where
  "Comment_fields = [''userId'', ''nickname'', ''text'']"

text \<open>A comment read from a document, and the \<^verbatim>\<open>dict\<close> written for a comment.\<close>

definition as_comment :: "json \<Rightarrow> error + Comment" where
  "as_comment v =
     err_bind (as_dict v) (\<lambda>kw.
       if \<not> list_all (\<lambda>kv. fst kv \<in> set Comment_fields) kw then Inl TypeError
       else
         err_bind (required kw ''userId'' as_int) (\<lambda>uid.
         err_bind (required kw ''nickname'' as_str) (\<lambda>nn.
         err_bind (required kw ''text'' as_str) (\<lambda>tx.
           Inr \<lparr>comment_userId = uid, comment_nickname = nn, comment_text = tx\<rparr>))))"

definition comment_dict :: "Comment \<Rightarrow> pydict" where
  "comment_dict c =
     [(''userId'', JInt (comment_userId c)), (''nickname'', JStr (comment_nickname c)),
      (''text'', JStr (comment_text c))]"

text \<open>\<^verbatim>\<open>Product(**p)\<close>, with the default \<^verbatim>\<open>comments=[]\<close>.\<close>

definition Product_of_kwargs :: "pydict \<Rightarrow> error + Product" where
  "Product_of_kwargs kw =
     (if \<not> list_all (\<lambda>kv. fst kv \<in> set Product_fields) kw then Inl TypeError
      else
        err_bind (required kw ''productId'' as_int) (\<lambda>pid.
        err_bind (required kw ''name'' as_str) (\<lambda>nm.
        err_bind (required kw ''category'' as_str) (\<lambda>ca.
        err_bind (required kw ''description'' as_str) (\<lambda>de.
        err_bind (required kw ''price'' as_float) (\<lambda>pr.
        err_bind (required kw ''images'' (as_list as_str)) (\<lambda>im.
        err_bind (required kw ''sellerId'' as_int) (\<lambda>sid.
        err_bind (optional kw ''comments'' (as_list as_comment) []) (\<lambda>cs.
          Inr \<lparr>productId = pid, name = nm, category = ca, description = de, price = pr,
               images = im, sellerId = sid, comments = cs\<rparr>)))))))))"

text \<open>\<^verbatim>\<open>dataclasses.asdict\<close>: the fields in declaration order, lists and dicts copied.\<close>

definition asdict_User :: "User \<Rightarrow> pydict" where
  "asdict_User u =
     [(''userId'', JInt (userId u)), (''email'', JStr (email u)), (''phone'', JStr (phone u)),
      (''password'', JStr (password u)), (''nickname'', JStr (nickname u)),
      (''avatar'', JStr (avatar u)), (''is_admin'', JBool (is_admin u)),
      (''favorites'', JList (map JInt (favorites u)))]"

definition asdict_Product :: "Product \<Rightarrow> pydict" where
  "asdict_Product p =
     [(''productId'', JInt (productId p)), (''name'', JStr (name p)),
      (''category'', JStr (category p)), (''description'', JStr (description p)),
      (''price'', JFloat (price p)), (''images'', JList (map JStr (images p))),
      (''sellerId'', JInt (sellerId p)), (''comments'', JList (map (\<lambda>c. JObj (comment_dict c)) (comments p)))]"

subsection \<open>Storage\<close>

text \<open>
  The disk: a path holds a JSON document, or bytes that are no JSON text, or nothing.
  Opening a path for writing fails with \<^verbatim>\<open>OSError\<close> where the path is not writable.
\<close>

datatype file_content = Document jtext | Malformed

record disk =
  files :: "string \<Rightarrow> file_content option"
  writable :: "string \<Rightarrow> bool"

record Storage =
  users_file :: string
  products_file :: string
  users :: "User list"
  products :: "Product list"

definition read_json :: "disk \<Rightarrow> string \<Rightarrow> error + json" where
  "read_json d path =
     (case files d path of
        None \<Rightarrow> Inl OSError
      | Some Malformed \<Rightarrow> Inl JSONDecodeError
      | Some (Document t) \<Rightarrow> load_json t)"

definition write_json :: "disk \<Rightarrow> string \<Rightarrow> json \<Rightarrow> error + disk" where
  "write_json d path v =
     (if writable d path then Inr (d\<lparr>files := (files d)(path \<mapsto> Document (dump_json v))\<rparr>)
      else Inl OSError)"

definition load_users :: "string \<Rightarrow> disk \<Rightarrow> error + User list" where
  "load_users path d =
     (if files d path = None then Inr []
      else err_bind (read_json d path) (\<lambda>data.
           err_bind (py_iter data) (\<lambda>items.
             traverse (\<lambda>u. err_bind (as_dict u) User_of_kwargs) items)))"

definition save_users :: "Storage \<Rightarrow> disk \<Rightarrow> error + disk" where
  "save_users s d = write_json d (users_file s) (JList (map (\<lambda>u. JObj (asdict_User u)) (users s)))"

definition load_products :: "string \<Rightarrow> disk \<Rightarrow> error + Product list" where
  "load_products path d =
     (if files d path = None then Inr []
      else err_bind (read_json d path) (\<lambda>data.
           err_bind (py_iter data) (\<lambda>items.
             traverse (\<lambda>p. err_bind (as_dict p) Product_of_kwargs) items)))"

definition save_products :: "Storage \<Rightarrow> disk \<Rightarrow> error + disk" where
  "save_products s d =
     write_json d (products_file s) (JList (map (\<lambda>p. JObj (asdict_Product p)) (products s)))"

text \<open>
  \<^verbatim>\<open>Storage.__init__\<close>: load both collections, then make sure an administrator exists.
\<close>

definition Storage_init :: "string \<Rightarrow> string \<Rightarrow> disk \<Rightarrow> error + Storage \<times> disk" where
  "Storage_init uf pf d =
     err_bind (load_users uf d) (\<lambda>us.
     err_bind (load_products pf d) (\<lambda>ps.
       let s = \<lparr>users_file = uf, products_file = pf, users = us, products = ps\<rparr> in
       if \<not> list_ex is_admin (users s) then
         err_bind (ensure_int_id (map userId (users s))) (\<lambda>admin_id.
           let admin = \<lparr>userId = admin_id, email = ''admin@example.com'', phone = [],
                         password = ''admin'', nickname = ''Administrator'', avatar = [],
                         is_admin = True, favorites = []\<rparr>;
               s' = s\<lparr>users := users s @ [admin]\<rparr>
           in err_bind (save_users s' d) (\<lambda>d'. Inr (s', d')))
       else Inr (s, d)))"

subsection \<open>Delete handlers of the application\<close>

text \<open>
  The handlers of \<^verbatim>\<open>SecondHandApp\<close> that delete. What the user did in the window is an
  argument: \<open>sel\<close> is the listbox selection (\<^verbatim>\<open>curselection()\<close>, a tuple of indices),
  \<open>answer\<close> is the answer to the \<^verbatim>\<open>askyesno\<close> dialog, and \<open>current_user\<close> is the
  attribute of that name (\<^verbatim>\<open>None\<close> when nobody is logged in). The listboxes, message
  boxes and page changes touch neither the collections nor the disk and are left out.
\<close>

text \<open>\<^verbatim>\<open>_ensure_login\<close>\<close>

definition ensure_login :: "User option \<Rightarrow> bool" where
  "ensure_login current_user = (current_user \<noteq> None)"

text \<open>
  The loop \<^verbatim>\<open>for u in users: if pid in u.favorites: u.favorites.remove(pid)\<close>;
  \<^verbatim>\<open>list.remove\<close> deletes the first occurrence, as \<^const>\<open>remove1\<close> does.
\<close>

definition remove_from_favorites :: "int \<Rightarrow> User list \<Rightarrow> User list" where
  "remove_from_favorites pid us =
     map (\<lambda>u. if pid \<in> set (favorites u)
               then u\<lparr>favorites := remove1 pid (favorites u)\<rparr> else u) us"

text \<open>\<^verbatim>\<open>_confirm_delete\<close>: the owner deletes a product.\<close>

definition confirm_delete ::
  "User option \<Rightarrow> Storage \<Rightarrow> disk \<Rightarrow> Product \<Rightarrow> bool \<Rightarrow> error + Storage \<times> disk" where
  "confirm_delete current_user s d product answer =
     (if \<not> ensure_login current_user then Inr (s, d)
      else if answer then
        let s1 = s\<lparr>products := filter (\<lambda>p. productId p \<noteq> productId product) (products s)\<rparr>;
            s2 = s1\<lparr>users := remove_from_favorites (productId product) (users s1)\<rparr>
        in err_bind (save_products s2 d) (\<lambda>d1.
           err_bind (save_users s2 d1) (\<lambda>d2. Inr (s2, d2)))
      else Inr (s, d))"

text \<open>\<^verbatim>\<open>del_user\<close>: the administrator deletes the selected user and that user's products.\<close>

definition del_user :: "Storage \<Rightarrow> disk \<Rightarrow> nat list \<Rightarrow> bool \<Rightarrow> error + Storage \<times> disk" where
  "del_user s d sel answer =
     (case sel of
        [] \<Rightarrow> Inr (s, d)
      | idx # _ \<Rightarrow>
          if length (users s) \<le> idx then Inl IndexError
          else
            let target = users s ! idx in
            if is_admin target then Inr (s, d)
            else if answer then
              let s1 = s\<lparr>products := filter (\<lambda>p. sellerId p \<noteq> userId target) (products s)\<rparr>;
                  s2 = s1\<lparr>users := take idx (users s1) @ drop (Suc idx) (users s1)\<rparr>
              in err_bind (save_products s2 d) (\<lambda>d1.
                 err_bind (save_users s2 d1) (\<lambda>d2. Inr (s2, d2)))
            else Inr (s, d))"

text \<open>\<^verbatim>\<open>del_product_admin\<close>: the administrator deletes the selected product.\<close>

definition del_product_admin ::
  "Storage \<Rightarrow> disk \<Rightarrow> nat list \<Rightarrow> bool \<Rightarrow> error + Storage \<times> disk" where
  "del_product_admin s d sel answer =
     (case sel of
        [] \<Rightarrow> Inr (s, d)
      | idx # _ \<Rightarrow>
          if length (products s) \<le> idx then Inl IndexError
          else
            let target = products s ! idx in
            if answer then
              let pid = productId target;
                  s1 = s\<lparr>products := filter (\<lambda>p. productId p \<noteq> pid) (products s)\<rparr>;
                  s2 = s1\<lparr>users := remove_from_favorites pid (users s1)\<rparr>
              in err_bind (save_products s2 d) (\<lambda>d1.
                 err_bind (save_users s2 d1) (\<lambda>d2. Inr (s2, d2)))
            else Inr (s, d))"

text \<open>
  The referential rule of the favorites: every id in a user's favorites is the
  \<open>productId\<close> of some product of the collection.
\<close>

definition no_dangling_favorites :: "Storage \<Rightarrow> bool" where
  "no_dangling_favorites s =
     list_all (\<lambda>u. list_all (\<lambda>f. list_ex (\<lambda>p. productId p = f) (products s)) (favorites u))
       (users s)"

subsection \<open>Image utilities\<close>

text \<open>
  The functions of \<^verbatim>\<open>os.path\<close> that the importer calls, as \<^verbatim>\<open>posixpath\<close> defines them.
  The separator and the dot are ASCII, so splitting the UTF-8 bytes splits the text at
  the same places.
\<close>

text \<open>\<^verbatim>\<open>os.path.join(a, b)\<close>: an absolute \<open>b\<close> replaces \<open>a\<close>.\<close>

definition py_join :: "string \<Rightarrow> string \<Rightarrow> string" where
  "py_join a b =
     (if b \<noteq> [] \<and> hd b = CHR ''/'' then b
      else if a = [] \<or> last a = CHR ''/'' then a @ b
      else a @ ''/'' @ b)"

text \<open>\<^verbatim>\<open>os.path.basename(p)\<close>: what follows the last slash.\<close>

definition py_basename :: "string \<Rightarrow> string" where
  "py_basename p = rev (takeWhile (\<lambda>c. c \<noteq> CHR ''/'') (rev p))"

text \<open>\<^verbatim>\<open>str.rfind\<close> of one character: the last index where it stands, or \<open>-1\<close>.\<close>

definition rfind :: "char \<Rightarrow> string \<Rightarrow> int" where
  "rfind c s =
     (if c \<in> set s then int (length s) - 1 - int (length (takeWhile (\<lambda>x. x \<noteq> c) (rev s)))
      else - 1)"

text \<open>
  \<^verbatim>\<open>os.path.splitext(p)\<close>: split at the last dot, unless that dot comes before the last
  slash or only dots stand between the last slash and it (a leading dot starts no
  extension).
\<close>

definition py_splitext :: "string \<Rightarrow> string \<times> string" where
  "py_splitext p =
     (let sepIndex = rfind (CHR ''/'') p; dotIndex = rfind (CHR ''.'') p in
      if dotIndex > sepIndex \<and>
         list_ex (\<lambda>c. c \<noteq> CHR ''.'')
           (take (nat (dotIndex - (sepIndex + 1))) (drop (nat (sepIndex + 1)) p))
      then (take (nat dotIndex) p, drop (nat dotIndex) p)
      else (p, []))"

text \<open>\<^verbatim>\<open>str(i)\<close> of a non-negative integer: its decimal digits.\<close>

fun py_str :: "nat \<Rightarrow> string" where
  "py_str n = (if n < 10 then [''0123456789'' ! n]
               else py_str (n div 10) @ [''0123456789'' ! (n mod 10)])"

declare py_str.simps [simp del]

text \<open>
  The file system and the console as the importer sees them: the paths that exist; for
  a call \<^verbatim>\<open>shutil.copy2(src, dst)\<close> whether it copies or raises (a failed copy may or may
  not have created the destination before it raised, and its exception prints as the
  given message); and for a text written to \<^verbatim>\<open>sys.stdout\<close> the exception that the write
  raises, if any (a stream that cannot encode the text raises \<^verbatim>\<open>UnicodeEncodeError\<close>).
\<close>

datatype copy_outcome = Copied | Failed bool string

record fsys =
  existing :: "string list"
  outcome :: "string \<Rightarrow> string \<Rightarrow> copy_outcome"
  stdout :: "string \<Rightarrow> error option"

text \<open>\<^verbatim>\<open>os.path.exists(p)\<close>\<close>

definition py_exists :: "fsys \<Rightarrow> string \<Rightarrow> bool" where
  "py_exists fs p = (p \<in> set (existing fs))"

text \<open>The formatted name \<^verbatim>\<open>f"{name}_{i}{ext}"\<close>.\<close>

definition numbered :: "string \<Rightarrow> string \<Rightarrow> nat \<Rightarrow> string" where
  "numbered nm ext i = nm @ ''_'' @ py_str i @ ext"

lemma py_str_nonempty: "py_str n \<noteq> []"
  by (subst py_str.simps) simp

lemma digit_inj: "a < 10 \<Longrightarrow> b < 10 \<Longrightarrow> ''0123456789'' ! a = ''0123456789'' ! b \<Longrightarrow> a = b"
proof -
  assume "a < 10" "b < 10" "''0123456789'' ! a = ''0123456789'' ! b"
  moreover have "distinct ''0123456789''" by simp
  ultimately show "a = b"
    by (simp add: nth_eq_iff_index_eq)
qed

lemma py_str_inj: "py_str n = py_str m \<Longrightarrow> n = m"
proof (induction n arbitrary: m rule: py_str.induct)
  case (1 n)
  show ?case
  proof (cases "n < 10")
    case True
    then have n: "py_str n = [''0123456789'' ! n]"
      by (subst py_str.simps) simp
    show ?thesis
    proof (cases "m < 10")
      case m: True
      then have "py_str m = [''0123456789'' ! m]"
        by (subst py_str.simps) simp
      with n "1.prems" have "''0123456789'' ! n = ''0123456789'' ! m" by simp
      then show ?thesis using True m digit_inj by blast
    next
      case False
      then have "py_str m = py_str (m div 10) @ [''0123456789'' ! (m mod 10)]"
        by (subst py_str.simps) simp
      with n "1.prems" py_str_nonempty [of "m div 10"] show ?thesis
        by (cases "py_str (m div 10)") auto
    qed
  next
    case False
    then have n: "py_str n = py_str (n div 10) @ [''0123456789'' ! (n mod 10)]"
      by (subst py_str.simps) simp
    show ?thesis
    proof (cases "m < 10")
      case True
      then have "py_str m = [''0123456789'' ! m]"
        by (subst py_str.simps) simp
      with n "1.prems" py_str_nonempty [of "n div 10"] show ?thesis
        by (cases "py_str (n div 10)") auto
    next
      case m: False
      then have "py_str m = py_str (m div 10) @ [''0123456789'' ! (m mod 10)]"
        by (subst py_str.simps) simp
      with n "1.prems" have e: "py_str (n div 10) = py_str (m div 10)"
        and d: "''0123456789'' ! (n mod 10) = ''0123456789'' ! (m mod 10)"
        by simp_all
      have "n div 10 = m div 10"
        using "1.IH" [OF False e] .
      moreover have "n mod 10 = m mod 10"
        using d digit_inj [of "n mod 10" "m mod 10"] by simp
      ultimately show ?thesis
        by (metis div_mult_mod_eq)
    qed
  qed
qed

lemma numbered_inj: "numbered nm ext i = numbered nm ext j \<Longrightarrow> i = j"
  by (simp add: numbered_def py_str_inj)

lemma join_numbered_inj:
  "py_join a (numbered nm ext i) = py_join a (numbered nm ext j) \<Longrightarrow> i = j"
proof -
  assume h: "py_join a (numbered nm ext i) = py_join a (numbered nm ext j)"
  have hd_eq: "hd (numbered nm ext i) = hd (numbered nm ext j)"
    by (cases nm) (simp_all add: numbered_def)
  have ne: "numbered nm ext i \<noteq> []" "numbered nm ext j \<noteq> []"
    by (simp_all add: numbered_def)
  have "numbered nm ext i = numbered nm ext j"
    using h hd_eq ne by (auto simp: py_join_def split: if_splits)
  then show ?thesis by (rule numbered_inj)
qed


text \<open>
  The loop \<^verbatim>\<open>while os.path.exists(os.path.join(IMAGES_DIR, candidate))\<close>. It terminates
  because the numbered names are pairwise different and only finitely many paths exist.
\<close>

lemma finite_numbered_existing:
  "finite {j. py_exists fs (py_join a (numbered nm ext j))}"
proof -
  have "inj_on (\<lambda>j. py_join a (numbered nm ext j)) {j. py_exists fs (py_join a (numbered nm ext j))}"
    by (rule inj_onI) (rule join_numbered_inj)
  moreover have "(\<lambda>j. py_join a (numbered nm ext j)) ` {j. py_exists fs (py_join a (numbered nm ext j))}
      \<subseteq> set (existing fs)"
    by (auto simp: py_exists_def)
  ultimately show ?thesis
    by (meson List.finite_set finite_imageD finite_subset)
qed

text \<open>The numbers from \<open>i\<close> on whose numbered name exists in the managed directory.\<close>

definition taken_from :: "fsys \<Rightarrow> string \<Rightarrow> string \<Rightarrow> nat \<Rightarrow> nat set" where
  "taken_from fs nm ext i = {j. i \<le> j \<and> py_exists fs (py_join IMAGES_DIR (numbered nm ext j))}"

lemma finite_taken_from: "finite (taken_from fs nm ext i)"
  using finite_numbered_existing [of fs IMAGES_DIR nm ext]
  by (simp add: taken_from_def)

lemma taken_from_Suc:
  "card (taken_from fs nm ext (Suc i)) +
     (if py_exists fs (py_join IMAGES_DIR (numbered nm ext i)) then 1 else 0)
   = card (taken_from fs nm ext i)"
proof (cases "py_exists fs (py_join IMAGES_DIR (numbered nm ext i))")
  case True
  have "taken_from fs nm ext i = insert i (taken_from fs nm ext (Suc i))"
    using True by (auto simp: taken_from_def Suc_le_eq le_less)
  moreover have "i \<notin> taken_from fs nm ext (Suc i)"
    by (simp add: taken_from_def)
  ultimately show ?thesis
    using True finite_taken_from [of fs nm ext "Suc i"] by simp
next
  case False
  have "taken_from fs nm ext i = taken_from fs nm ext (Suc i)"
    using False by (auto simp: taken_from_def Suc_le_eq le_less)
  then show ?thesis
    using False by simp
qed

function candidate_loop :: "fsys \<Rightarrow> string \<Rightarrow> string \<Rightarrow> string \<Rightarrow> nat \<Rightarrow> string" where
  "candidate_loop fs nm ext candidate i =
     (if py_exists fs (py_join IMAGES_DIR candidate)
      then candidate_loop fs nm ext (numbered nm ext i) (Suc i)
      else candidate)"
  by pat_completeness auto
termination
proof (relation "measure (\<lambda>(fs, nm, ext, candidate, i).
    card (taken_from fs nm ext i) + (if py_exists fs (py_join IMAGES_DIR candidate) then 1 else 0))")
  show "wf (measure (\<lambda>(fs, nm, ext, candidate, i).
    card (taken_from fs nm ext i) + (if py_exists fs (py_join IMAGES_DIR candidate) then 1 else 0)))"
    by simp
next
  fix fs :: fsys and nm ext candidate :: string and i :: nat
  assume "py_exists fs (py_join IMAGES_DIR candidate)"
  then show "((fs, nm, ext, numbered nm ext i, Suc i), (fs, nm, ext, candidate, i))
    \<in> measure (\<lambda>(fs, nm, ext, candidate, i).
        card (taken_from fs nm ext i) + (if py_exists fs (py_join IMAGES_DIR candidate) then 1 else 0))"
    using taken_from_Suc [of fs nm ext i] by simp
qed

declare candidate_loop.simps [simp del]


text \<open>
  \<^verbatim>\<open>shutil.copy2(src, dst)\<close>: on success the destination exists afterwards; a failure
  raises \<^verbatim>\<open>OSError\<close>, here paired with the message \<^verbatim>\<open>str(e)\<close>.
\<close>

definition shutil_copy2 :: "fsys \<Rightarrow> string \<Rightarrow> string \<Rightarrow> fsys \<times> (error \<times> string + unit)" where
  "shutil_copy2 fs src dst =
     (case outcome fs src dst of
        Copied \<Rightarrow> (fs\<lparr>existing := dst # existing fs\<rparr>, Inr ())
      | Failed created msg \<Rightarrow>
          (if created then fs\<lparr>existing := dst # existing fs\<rparr> else fs, Inl (OSError, msg)))"

text \<open>\<^verbatim>\<open>print(text)\<close>: the text and a newline are written to \<^verbatim>\<open>sys.stdout\<close>.\<close>

definition py_print :: "fsys \<Rightarrow> string \<Rightarrow> error + unit" where
  "py_print fs text = (case stdout fs (text @ [CHR 0x0A]) of None \<Rightarrow> Inr () | Some e \<Rightarrow> Inl e)"

text \<open>\<^verbatim>\<open>.replace("\\", "/")\<close>\<close>

definition replace_backslash :: "string \<Rightarrow> string" where
  "replace_backslash s = map (\<lambda>c. if c = CHR 0x5C then CHR ''/'' else c) s"

text \<open>
  The body of the \<^verbatim>\<open>try\<close> block of \<^verbatim>\<open>copy_image_to_storage\<close>: it returns
  \<^verbatim>\<open>None\<close> or the new relative path, or an exception leaves it.
\<close>

definition copy_image_body :: "fsys \<Rightarrow> string \<Rightarrow> fsys \<times> (error \<times> string + string option)" where
  "copy_image_body fs src_path =
     (if src_path = [] then (fs, Inr None)
      else if \<not> py_exists fs src_path then (fs, Inr None)
      else
        let basename = py_basename src_path;
            (nm, ext) = py_splitext basename;
            candidate = candidate_loop fs nm ext basename 1;
            dst = py_join IMAGES_DIR candidate
        in case shutil_copy2 fs src_path dst of
             (fs', Inl e) \<Rightarrow> (fs', Inl e)
           | (fs', Inr _) \<Rightarrow> (fs', Inr (Some (replace_backslash (py_join IMAGES_DIR candidate)))))"

text \<open>
  \<^verbatim>\<open>copy_image_to_storage\<close>: the clause \<^verbatim>\<open>except Exception as e\<close> runs
  \<^verbatim>\<open>print("copy image failed:", e)\<close> and then returns \<^verbatim>\<open>None\<close>. The \<^verbatim>\<open>print\<close> stands
  in the handler, under no \<^verbatim>\<open>try\<close>: an exception it raises leaves the function.
\<close>

definition copy_image_to_storage :: "fsys \<Rightarrow> string \<Rightarrow> fsys \<times> (error + string option)" where
  "copy_image_to_storage fs src_path =
     (case copy_image_body fs src_path of
        (fs', Inr r) \<Rightarrow> (fs', Inr r)
      | (fs', Inl (e, msg)) \<Rightarrow>
          (case py_print fs' (''copy image failed: '' @ msg) of
             Inl raised \<Rightarrow> (fs', Inl raised)
           | Inr _ \<Rightarrow> (fs', Inr None)))"

subsection \<open>Example data\<close>

text \<open>Concrete documents, collections and disks on which the theorems below are run.\<close>

definition ex_user :: "int \<Rightarrow> bool \<Rightarrow> int list \<Rightarrow> User" where
  "ex_user uid adm favs =
     \<lparr>userId = uid, email = ''u@example.com'', phone = ''555'', password = ''pw'',
      nickname = [CHR 0xE7, CHR 0x8E, CHR 0x8B], avatar = [], is_admin = adm, favorites = favs\<rparr>"

definition ex_product :: "int \<Rightarrow> int \<Rightarrow> pyfloat \<Rightarrow> Product" where
  "ex_product pid seller pr =
     \<lparr>productId = pid, name = ''lamp'', category = ''home'', description = ''as new'',
      price = pr, images = [''images/lamp.png''], sellerId = seller,
      comments = [\<lparr>comment_userId = 3, comment_nickname = ''bo'', comment_text = ''ok?''\<rparr>]\<rparr>"

definition ex_users_doc :: "User list \<Rightarrow> json" where
  "ex_users_doc us = JList (map (\<lambda>u. JObj (asdict_User u)) us)"

definition ex_disk :: "(string \<times> json) list \<Rightarrow> disk" where
  "ex_disk docs =
     \<lparr>files = map_of (map (\<lambda>(p, v). (p, Document (dump_json v))) docs), writable = (\<lambda>p. True)\<rparr>"

definition ex_storage :: "User list \<Rightarrow> Product list \<Rightarrow> Storage" where
  "ex_storage us ps =
     \<lparr>users_file = USERS_FILE, products_file = PRODUCTS_FILE, users = us, products = ps\<rparr>"

definition ex_fsys :: "string list \<Rightarrow> copy_outcome \<Rightarrow> fsys" where
  "ex_fsys ps oc = \<lparr>existing = ps, outcome = (\<lambda>src dst. oc), stdout = (\<lambda>text. None)\<rparr>"

text \<open>A console whose encoding is ASCII: writing any other character raises.\<close>

definition ascii_stdout :: "string \<Rightarrow> error option" where
  "ascii_stdout text =
     (if list_all (\<lambda>c. (of_char c :: nat) < 128) text then None else Some UnicodeEncodeError)"

section \<open>Properties\<close>

subsection \<open>Identifier allocator\<close>

lemma fold_keep_larger:
  "fold (\<lambda>y m. if m < y then y else m) xs (x::int) = Max (insert x (set xs))"
proof (induction xs arbitrary: x)
  case Nil
  show ?case by simp
next
  case (Cons y ys)
  have "Max (insert (max x y) (set ys)) = Max (insert x (insert y (set ys)))"
    by (cases "set ys = {}") (simp_all add: max.assoc)
  moreover have "(if x < y then y else x) = max x y"
    by (simp add: max_def)
  ultimately show ?case
    using Cons.IH [of "max x y"] by simp
qed

lemma py_max_is_Max: "xs \<noteq> [] \<Longrightarrow> py_max xs = Inr (Max (set xs))"
  by (cases xs) (simp_all add: fold_keep_larger)

text \<open>
  Claim C6. The allocator never raises. On the empty list it returns 1, on \<open>[1, 2, 5]\<close>
  it returns 6, and on every non-empty list it returns the maximum plus one, which is
  the least integer strictly greater than every id of the list.
\<close>

theorem ensure_int_id_spec:
  "ensure_int_id [] = Inr 1 \<and>
   ensure_int_id [1, 2, 5] = Inr 6 \<and>
   (\<exists>n. ensure_int_id xs = Inr n) \<and>
   (xs \<noteq> [] \<longrightarrow>
      ensure_int_id xs = Inr (Max (set xs) + 1) \<and>
      (\<forall>x \<in> set xs. x < Max (set xs) + 1) \<and>
      (\<forall>k. (\<forall>x \<in> set xs. x < k) \<longrightarrow> Max (set xs) + 1 \<le> k))"
proof -
  have a: "ensure_int_id [] = Inr 1"
    by (simp add: ensure_int_id_def)
  have b: "ensure_int_id [1, 2, 5] = Inr 6"
    by (simp add: ensure_int_id_def)
  have c: "ensure_int_id xs = Inr (Max (set xs) + 1)" if "xs \<noteq> []"
    using that by (simp add: ensure_int_id_def py_max_is_Max)
  have d: "\<forall>x \<in> set xs. x < Max (set xs) + 1"
    by (simp add: zless_add1_eq)
  have e: "Max (set xs) + 1 \<le> k" if "xs \<noteq> []" "\<forall>x \<in> set xs. x < k" for k
  proof -
    have "Max (set xs) \<in> set xs"
      using that(1) by (simp add: Max_in)
    then have "Max (set xs) < k"
      using that(2) by blast
    then show ?thesis by simp
  qed
  have f: "\<exists>n. ensure_int_id xs = Inr n"
    using a c by (cases "xs = []") auto
  from a b c d e f show ?thesis by blast
qed

theorem ensure_int_id_spec_witness:
  "[3, 9, 4] \<noteq> ([]::int list) \<and> ensure_int_id [3, 9, 4] = Inr (Max (set [3, 9, 4]) + 1) \<and>
   ensure_int_id [3, 9, 4] = Inr 10"
  using ensure_int_id_spec [of "[3, 9, 4]"] by simp

subsection \<open>Storage initialisation\<close>

lemma save_users_ok:
  "writable d (users_file s) \<Longrightarrow>
   save_users s d =
     Inr (d\<lparr>files := (files d)(users_file s \<mapsto>
            Document (dump_json (JList (map (\<lambda>u. JObj (asdict_User u)) (users s)))))\<rparr>)"
  by (simp add: save_users_def write_json_def)

lemma save_products_ok:
  "writable d (products_file s) \<Longrightarrow>
   save_products s d =
     Inr (d\<lparr>files := (files d)(products_file s \<mapsto>
            Document (dump_json (JList (map (\<lambda>p. JObj (asdict_Product p)) (products s)))))\<rparr>)"
  by (simp add: save_products_def write_json_def)



lemma ensure_int_id_total: "\<exists>n. ensure_int_id xs = Inr n"
  by (cases xs) (simp_all add: ensure_int_id_def)

lemma no_admin_count: "\<not> list_ex is_admin us \<Longrightarrow> length (filter is_admin us) = 0"
  by (induction us) (simp_all)

lemma some_admin_count: "list_ex is_admin us \<Longrightarrow> 1 \<le> length (filter is_admin us)"
  by (induction us) (auto)

lemma err_bind_Inr: "err_bind (Inr v) f = f v"
  by (simp add: err_bind_def)

lemma err_bind_Inl: "err_bind (Inl e) f = Inl e"
  by (simp add: err_bind_def)

lemmas err_bind_simps = err_bind_Inr err_bind_Inl

subsection \<open>Strings survive the document\<close>

lemma hex_value_digit_all: "\<forall>k \<in> set [0..<16]. hex_value (hex_digit k) = Some k"
  by code_simp

lemma hex_value_digit: "k < 16 \<Longrightarrow> hex_value (hex_digit k) = Some k"
  using hex_value_digit_all by simp

lemma hex_value_zero: "hex_value (CHR ''0'') = Some 0"
  by (simp add: hex_value_def)

lemma hex4_control:
  assumes "n < 32"
  shows "hex4 (CHR ''0'') (CHR ''0'') (hex_digit (n div 16)) (hex_digit (n mod 16)) = Some n"
proof -
  have "n div 16 < 16" "n mod 16 < 16"
    using assms by simp_all
  then show ?thesis
    by (simp add: hex4_def hex_value_zero hex_value_digit)
qed

lemma py_scanstring_plain:
  "c \<noteq> CHR 0x22 \<Longrightarrow> c \<noteq> CHR 0x5C \<Longrightarrow> \<not> (of_char c :: nat) < 0x20 \<Longrightarrow>
   py_scanstring (c # rest) = err_bind (py_scanstring rest) (\<lambda>r. Inr (c # fst r, snd r))"
  by simp

lemma py_scanstring_simple_escape:
  "esc \<noteq> CHR ''u'' \<Longrightarrow> BACKSLASH esc = Some ch \<Longrightarrow>
   py_scanstring (CHR 0x5C # esc # rest) = err_bind (py_scanstring rest) (\<lambda>r. Inr (ch # fst r, snd r))"
  by simp

lemma py_scanstring_control_escape:
  assumes "(of_char c :: nat) < 0x20"
  shows "py_scanstring (CHR 0x5C # CHR ''u'' # CHR ''0'' # CHR ''0'' #
            hex_digit (of_char c div 16) # hex_digit (of_char c mod 16) # rest)
         = err_bind (py_scanstring rest) (\<lambda>r. Inr (c # fst r, snd r))"
proof -
  have "utf8 (of_char c) = [c]"
    using assms by (simp add: utf8_def)
  then show ?thesis
    using assms hex4_control [of "of_char c"] by simp
qed

lemma py_scanstring_escape_char:
  "py_scanstring (escape_char c @ rest) = err_bind (py_scanstring rest) (\<lambda>r. Inr (c # fst r, snd r))"
proof -
  let ?named = "{CHR 0x5C, CHR 0x22, CHR 0x08, CHR 0x0C, CHR 0x0A, CHR 0x0D, CHR 0x09}"
  have named: ?thesis if "c \<in> ?named"
    using that by (auto simp: escape_char_def BACKSLASH_def)
  have control: ?thesis if "c \<notin> ?named" and "(of_char c :: nat) < 0x20"
    using that py_scanstring_control_escape [of c rest] by (simp add: escape_char_def)
  have plain: ?thesis if "c \<notin> ?named" and "\<not> (of_char c :: nat) < 0x20"
    using that py_scanstring_plain [of c rest] by (simp add: escape_char_def)
  show ?thesis
    using named control plain by blast
qed

lemma py_scanstring_escaped:
  "py_scanstring (concat (map escape_char s) @ CHR 0x22 # rest) = Inr (s, rest)"
proof (induction s)
  case Nil
  show ?case by simp
next
  case (Cons c s)
  have "py_scanstring (escape_char c @ (concat (map escape_char s) @ CHR 0x22 # rest))
      = Inr (c # s, rest)"
    unfolding py_scanstring_escape_char Cons.IH by (simp add: err_bind_simps)
  then show ?case by simp
qed

lemma load_string_encoded: "load_string (py_encode_basestring s) = Inr s"
  using py_scanstring_escaped [of s "[]"]
  by (simp add: load_string_def py_encode_basestring_def err_bind_simps)

lemma traverse_map_inverse:
  "(\<And>x. x \<in> set xs \<Longrightarrow> f (g x) = Inr x) \<Longrightarrow> traverse f (map g xs) = Inr xs"
  by (induction xs) (simp_all add: err_bind_simps)

lemma load_json_dump_json: "load_json (dump_json v) = Inr v"
proof (induction v)
  case (JStr s)
  show ?case by (simp add: load_string_encoded err_bind_simps)
next
  case (JList xs)
  have "traverse load_json (map dump_json xs) = Inr xs"
    using JList by (intro traverse_map_inverse) simp
  then show ?case by (simp add: err_bind_simps)
next
  case (JObj kvs)
  have "traverse (\<lambda>kv. err_bind (load_string (fst kv)) (\<lambda>k.
                     err_bind (load_json (snd kv)) (\<lambda>v. Inr (k, v))))
          (map (\<lambda>kv. (py_encode_basestring (fst kv), dump_json (snd kv))) kvs) = Inr kvs"
  proof (intro traverse_map_inverse)
    fix kv assume "kv \<in> set kvs"
    then have "load_json (dump_json (snd kv)) = Inr (snd kv)"
      using JObj by (cases kv) (auto simp: snds.simps)
    then show "err_bind (load_string (fst (py_encode_basestring (fst kv), dump_json (snd kv))))
        (\<lambda>k. err_bind (load_json (snd (py_encode_basestring (fst kv), dump_json (snd kv))))
           (\<lambda>v. Inr (k, v))) = Inr kv"
      by (simp add: load_string_encoded err_bind_simps)
  qed
  then show ?case by (simp add: err_bind_simps)
qed simp_all

subsection \<open>Records survive the document\<close>

lemma traverse_as_int: "traverse as_int (map JInt xs) = Inr xs"
  by (induction xs) (simp_all add: err_bind_def)




lemma User_of_kwargs_asdict: "User_of_kwargs (asdict_User u) = Inr u"
  by (simp add: User_of_kwargs_def asdict_User_def User_fields_def required_def
      optional_def err_bind_def traverse_as_int)


lemma traverse_users:
  "traverse (\<lambda>u. err_bind (as_dict u) User_of_kwargs) (map (\<lambda>u. JObj (asdict_User u)) us)
     = Inr us"
  by (induction us) (simp_all add: err_bind_def User_of_kwargs_asdict)


lemma load_users_written:
  "files d path = Some (Document (dump_json (JList (map (\<lambda>u. JObj (asdict_User u)) us)))) \<Longrightarrow>
   load_users path d = Inr us"
  by (simp add: load_users_def read_json_def load_json_dump_json err_bind_simps traverse_users
      del: dump_json.simps)


lemma Storage_init_with_admin:
  "load_users uf d = Inr us \<Longrightarrow> load_products pf d = Inr ps \<Longrightarrow> list_ex is_admin us \<Longrightarrow>
   Storage_init uf pf d =
     Inr (\<lparr>users_file = uf, products_file = pf, users = us, products = ps\<rparr>, d)"
  by (simp add: Storage_init_def err_bind_def)

lemma Storage_init_without_admin:
  "load_users uf d = Inr us \<Longrightarrow> load_products pf d = Inr ps \<Longrightarrow> \<not> list_ex is_admin us \<Longrightarrow>
   ensure_int_id (map userId us) = Inr i \<Longrightarrow> writable d uf \<Longrightarrow>
   Storage_init uf pf d =
     Inr (\<lparr>users_file = uf, products_file = pf,
            users = us @ [\<lparr>userId = i, email = ''admin@example.com'', phone = [],
                           password = ''admin'', nickname = ''Administrator'', avatar = [],
                           is_admin = True, favorites = []\<rparr>],
            products = ps\<rparr>,
          d\<lparr>files := (files d)(uf \<mapsto> Document (dump_json (JList (map (\<lambda>u. JObj (asdict_User u))
            (us @ [\<lparr>userId = i, email = ''admin@example.com'', phone = [],
                     password = ''admin'', nickname = ''Administrator'', avatar = [],
                     is_admin = True, favorites = []\<rparr>])))))\<rparr>)"
  by (simp add: Storage_init_def err_bind_def save_users_def write_json_def Let_def)

lemma Storage_init_not_writable:
  "load_users uf d = Inr us \<Longrightarrow> load_products pf d = Inr ps \<Longrightarrow> \<not> list_ex is_admin us \<Longrightarrow>
   \<not> writable d uf \<Longrightarrow> Storage_init uf pf d = Inl OSError"
  using ensure_int_id_total [of "map userId us"]
  by (auto simp: Storage_init_def err_bind_def save_users_def write_json_def Let_def)

lemma Storage_init_loads:
  "Storage_init uf pf d = Inr (s, d') \<Longrightarrow>
   \<exists>us ps. load_users uf d = Inr us \<and> load_products pf d = Inr ps"
  by (cases "load_users uf d"; cases "load_products pf d")
     (simp_all add: Storage_init_def err_bind_def)

text \<open>
  Claim C3. Let the two documents load. If no loaded user is an administrator (and the
  users document can be written), initialisation returns with exactly one user appended
  to the loaded ones: its id is the allocator's, its email and nickname are the fixed
  ones, its phone and favorites are empty and its admin flag is set; the users document
  on disk then holds the extended collection, and loading it again yields it. If some
  loaded user is an administrator, initialisation returns the loaded collections and
  the disk as they were.
\<close>

theorem Storage_init_default_admin:
  assumes "load_users uf d = Inr us" and "load_products pf d = Inr ps"
  shows "(\<not> list_ex is_admin us \<and> writable d uf \<longrightarrow>
            (\<exists>a d'. Storage_init uf pf d =
                 Inr (\<lparr>users_file = uf, products_file = pf, users = us @ [a], products = ps\<rparr>, d')
               \<and> ensure_int_id (map userId us) = Inr (userId a)
               \<and> email a = ''admin@example.com'' \<and> nickname a = ''Administrator''
               \<and> phone a = [] \<and> is_admin a \<and> favorites a = []
               \<and> files d' uf = Some (Document (dump_json (JList (map (\<lambda>u. JObj (asdict_User u)) (us @ [a])))))
               \<and> load_users uf d' = Inr (us @ [a])))
       \<and> (list_ex is_admin us \<longrightarrow>
            Storage_init uf pf d =
              Inr (\<lparr>users_file = uf, products_file = pf, users = us, products = ps\<rparr>, d))"
proof (intro conjI impI)
  assume h: "\<not> list_ex is_admin us \<and> writable d uf"
  obtain i where i: "ensure_int_id (map userId us) = Inr i"
    using ensure_int_id_total by blast
  define a where "a = \<lparr>userId = i, email = ''admin@example.com'', phone = [],
    password = ''admin'', nickname = ''Administrator'', avatar = [],
    is_admin = True, favorites = []\<rparr>"
  define d' where "d' = d\<lparr>files := (files d)(uf \<mapsto>
    Document (dump_json (JList (map (\<lambda>u. JObj (asdict_User u)) (us @ [a])))))\<rparr>"
  have run: "Storage_init uf pf d =
      Inr (\<lparr>users_file = uf, products_file = pf, users = us @ [a], products = ps\<rparr>, d')"
    using Storage_init_without_admin [OF assms _ i] h by (simp add: a_def d'_def)
  have on_disk: "files d' uf = Some (Document (dump_json (JList (map (\<lambda>u. JObj (asdict_User u)) (us @ [a])))))"
    by (simp add: d'_def)
  have fields: "ensure_int_id (map userId us) = Inr (userId a) \<and> email a = ''admin@example.com''
      \<and> nickname a = ''Administrator'' \<and> phone a = [] \<and> is_admin a \<and> favorites a = []"
    using i by (simp add: a_def)
  show "\<exists>a d'. Storage_init uf pf d =
                 Inr (\<lparr>users_file = uf, products_file = pf, users = us @ [a], products = ps\<rparr>, d')
               \<and> ensure_int_id (map userId us) = Inr (userId a)
               \<and> email a = ''admin@example.com'' \<and> nickname a = ''Administrator''
               \<and> phone a = [] \<and> is_admin a \<and> favorites a = []
               \<and> files d' uf = Some (Document (dump_json (JList (map (\<lambda>u. JObj (asdict_User u)) (us @ [a])))))
               \<and> load_users uf d' = Inr (us @ [a])"
    using run on_disk fields load_users_written [OF on_disk] by blast
next
  assume "list_ex is_admin us"
  then show "Storage_init uf pf d =
      Inr (\<lparr>users_file = uf, products_file = pf, users = us, products = ps\<rparr>, d)"
    using Storage_init_with_admin [OF assms] by simp
qed

lemma ex_load_users:
  "load_users USERS_FILE (ex_disk [(USERS_FILE, ex_users_doc us)]) = Inr us"
  by (rule load_users_written) (simp add: ex_disk_def ex_users_doc_def)

lemma ex_load_products_none:
  "load_products PRODUCTS_FILE (ex_disk [(USERS_FILE, v)]) = Inr []"
  by (simp add: load_products_def ex_disk_def USERS_FILE_def PRODUCTS_FILE_def)

theorem Storage_init_default_admin_witness:
  "load_users USERS_FILE (ex_disk [(USERS_FILE, ex_users_doc [ex_user 7 False []])])
       = Inr [ex_user 7 False []]
   \<and> load_products PRODUCTS_FILE (ex_disk [(USERS_FILE, ex_users_doc [ex_user 7 False []])])
       = Inr []
   \<and> (\<exists>a d'. Storage_init USERS_FILE PRODUCTS_FILE
                (ex_disk [(USERS_FILE, ex_users_doc [ex_user 7 False []])])
              = Inr (ex_storage [ex_user 7 False [], a] [], d')
            \<and> userId a = 8 \<and> is_admin a
            \<and> load_users USERS_FILE d' = Inr [ex_user 7 False [], a])
   \<and> Storage_init USERS_FILE PRODUCTS_FILE
        (ex_disk [(USERS_FILE, ex_users_doc [ex_user 7 True []])])
       = Inr (ex_storage [ex_user 7 True []] [],
              ex_disk [(USERS_FILE, ex_users_doc [ex_user 7 True []])])"
proof -
  let ?d = "ex_disk [(USERS_FILE, ex_users_doc [ex_user 7 False []])]"
  let ?e = "ex_disk [(USERS_FILE, ex_users_doc [ex_user 7 True []])]"
  have id8: "ensure_int_id (map userId [ex_user 7 False []]) = Inr 8"
    by (simp add: ensure_int_id_def ex_user_def)
  have no_admin: "\<not> list_ex is_admin [ex_user 7 False []] \<and> writable ?d USERS_FILE"
    by (simp add: ex_user_def ex_disk_def)
  have admin: "list_ex is_admin [ex_user 7 True []]"
    by (simp add: ex_user_def)
  have lu: "load_users USERS_FILE ?d = Inr [ex_user 7 False []]"
    by (rule ex_load_users)
  have lp: "load_products PRODUCTS_FILE ?d = Inr []"
    by (rule ex_load_products_none)
  have lu': "load_users USERS_FILE ?e = Inr [ex_user 7 True []]"
    by (rule ex_load_users)
  have lp': "load_products PRODUCTS_FILE ?e = Inr []"
    by (rule ex_load_products_none)
  show ?thesis
    using Storage_init_default_admin [OF lu lp] Storage_init_default_admin [OF lu' lp']
      no_admin admin id8 lu lp
    by (auto simp: ex_storage_def)
qed

lemma Storage_init_appends:
  assumes "Storage_init uf pf d = Inr (s, d')"
    and "load_users uf d = Inr us"
    and "\<not> list_ex is_admin us"
  shows "\<exists>i. ensure_int_id (map userId us) = Inr i \<and>
           users s = us @ [\<lparr>userId = i, email = ''admin@example.com'', phone = [],
                            password = ''admin'', nickname = ''Administrator'', avatar = [],
                            is_admin = True, favorites = []\<rparr>]"
proof -
  obtain i where i: "ensure_int_id (map userId us) = Inr i"
    using ensure_int_id_total by blast
  obtain ps where ps: "load_products pf d = Inr ps"
    using Storage_init_loads [OF assms(1)] by blast
  have w: "writable d uf"
    using Storage_init_not_writable [OF assms(2) ps assms(3)] assms(1) by auto
  show ?thesis
    using Storage_init_without_admin [OF assms(2) ps assms(3) i w] assms(1) i by auto
qed

text \<open>
  Claim C10. Whenever initialisation returns from a users document without an
  administrator, the collection is the loaded one followed by the user with the
  allocator's id and these field values: email \<open>admin@example.com\<close>, empty phone,
  password \<open>admin\<close>, nickname \<open>Administrator\<close>, empty avatar, admin flag set, empty
  favorites.
\<close>

theorem Storage_init_admin_fields:
  assumes "Storage_init uf pf d = Inr (s, d')"
    and "load_users uf d = Inr us"
    and "\<not> list_ex is_admin us"
  shows "\<exists>i. ensure_int_id (map userId us) = Inr i \<and>
           users s = us @ [\<lparr>userId = i, email = ''admin@example.com'', phone = [],
                            password = ''admin'', nickname = ''Administrator'', avatar = [],
                            is_admin = True, favorites = []\<rparr>]"
  using Storage_init_appends [OF assms] .

theorem Storage_init_admin_fields_witness:
  "Storage_init USERS_FILE PRODUCTS_FILE (ex_disk []) =
     Inr (ex_storage [\<lparr>userId = 1, email = ''admin@example.com'', phone = [],
                        password = ''admin'', nickname = ''Administrator'', avatar = [],
                        is_admin = True, favorites = []\<rparr>] [],
          ex_disk [(USERS_FILE, ex_users_doc
             [\<lparr>userId = 1, email = ''admin@example.com'', phone = [],
               password = ''admin'', nickname = ''Administrator'', avatar = [],
               is_admin = True, favorites = []\<rparr>])])"
proof -
  have run: "Storage_init USERS_FILE PRODUCTS_FILE (ex_disk []) =
     Inr (ex_storage [\<lparr>userId = 1, email = ''admin@example.com'', phone = [],
                        password = ''admin'', nickname = ''Administrator'', avatar = [],
                        is_admin = True, favorites = []\<rparr>] [],
          ex_disk [(USERS_FILE, ex_users_doc
             [\<lparr>userId = 1, email = ''admin@example.com'', phone = [],
               password = ''admin'', nickname = ''Administrator'', avatar = [],
               is_admin = True, favorites = []\<rparr>])])"
    by (simp add: Storage_init_def load_users_def load_products_def ex_disk_def
        err_bind_simps ensure_int_id_def save_users_def write_json_def ex_storage_def
        ex_users_doc_def Let_def fun_eq_iff)
  have l: "load_users USERS_FILE (ex_disk []) = Inr []"
    by (simp add: load_users_def ex_disk_def)
  show ?thesis
    using Storage_init_admin_fields [OF run l] run by simp
qed

subsection \<open>Number of administrators after initialisation\<close>

text \<open>
  Claim C2 as stated fails on a users document that already holds two administrators:
  initialisation synthesizes nothing and returns with both, so the number of
  administrators is two, not one.
\<close>

theorem Storage_init_two_admins:
  "Storage_init USERS_FILE PRODUCTS_FILE
     (ex_disk [(USERS_FILE, ex_users_doc [ex_user 1 True [], ex_user 2 True []])])
     = Inr (ex_storage [ex_user 1 True [], ex_user 2 True []] [],
            ex_disk [(USERS_FILE, ex_users_doc [ex_user 1 True [], ex_user 2 True []])])
   \<and> length (filter is_admin (users (ex_storage [ex_user 1 True [], ex_user 2 True []] []))) = 2"
proof -
  have "list_ex is_admin [ex_user 1 True [], ex_user 2 True []]"
    by (simp add: ex_user_def)
  then show ?thesis
    using Storage_init_with_admin [OF ex_load_users ex_load_products_none]
    by (simp add: ex_storage_def ex_user_def)
qed

text \<open>
  Claim C2, amended. When initialisation returns, at least one user of the collection
  has the admin flag: the number of administrators is the number of loaded
  administrators, or one when none was loaded. So it is exactly one whenever the users
  document held at most one administrator.
\<close>

theorem Storage_init_admin_count:
  assumes "Storage_init uf pf d = Inr (s, d')"
    and "load_users uf d = Inr us"
  shows "list_ex is_admin (users s) \<and>
         length (filter is_admin (users s)) = max 1 (length (filter is_admin us)) \<and>
         (length (filter is_admin us) \<le> 1 \<longrightarrow> length (filter is_admin (users s)) = 1)"
proof (cases "list_ex is_admin us")
  case True
  obtain ps where ps: "load_products pf d = Inr ps"
    using Storage_init_loads [OF assms(1)] by blast
  have "users s = us"
    using Storage_init_with_admin [OF assms(2) ps True] assms(1) by auto
  then show ?thesis
    using True some_admin_count [OF True] by (simp add: max_def)
next
  case False
  obtain i where "users s = us @ [\<lparr>userId = i, email = ''admin@example.com'', phone = [],
      password = ''admin'', nickname = ''Administrator'', avatar = [],
      is_admin = True, favorites = []\<rparr>]"
    using Storage_init_appends [OF assms False] by blast
  then show ?thesis
    using no_admin_count [OF False] by (simp add: list_ex_iff)
qed

theorem Storage_init_admin_count_witness:
  "Storage_init USERS_FILE PRODUCTS_FILE
     (ex_disk [(USERS_FILE, ex_users_doc [ex_user 4 False [], ex_user 9 False []])])
     = Inr (ex_storage [ex_user 4 False [], ex_user 9 False [],
              \<lparr>userId = 10, email = ''admin@example.com'', phone = [],
               password = ''admin'', nickname = ''Administrator'', avatar = [],
               is_admin = True, favorites = []\<rparr>] [],
            ex_disk [(USERS_FILE, ex_users_doc [ex_user 4 False [], ex_user 9 False [],
              \<lparr>userId = 10, email = ''admin@example.com'', phone = [],
               password = ''admin'', nickname = ''Administrator'', avatar = [],
               is_admin = True, favorites = []\<rparr>])])
   \<and> load_users USERS_FILE
        (ex_disk [(USERS_FILE, ex_users_doc [ex_user 4 False [], ex_user 9 False []])])
       = Inr [ex_user 4 False [], ex_user 9 False []]
   \<and> length (filter is_admin (users (ex_storage [ex_user 4 False [], ex_user 9 False [],
              \<lparr>userId = 10, email = ''admin@example.com'', phone = [],
               password = ''admin'', nickname = ''Administrator'', avatar = [],
               is_admin = True, favorites = []\<rparr>] []))) = 1"
proof -
  let ?us = "[ex_user 4 False [], ex_user 9 False []]"
  let ?d = "ex_disk [(USERS_FILE, ex_users_doc ?us)]"
  have lu: "load_users USERS_FILE ?d = Inr ?us"
    by (rule ex_load_users)
  have lp: "load_products PRODUCTS_FILE ?d = Inr []"
    by (rule ex_load_products_none)
  have na: "\<not> list_ex is_admin ?us"
    by (simp add: ex_user_def)
  have i: "ensure_int_id (map userId ?us) = Inr 10"
    by (simp add: ensure_int_id_def ex_user_def)
  have w: "writable ?d USERS_FILE"
    by (simp add: ex_disk_def)
  have run: "Storage_init USERS_FILE PRODUCTS_FILE ?d
     = Inr (ex_storage [ex_user 4 False [], ex_user 9 False [],
              \<lparr>userId = 10, email = ''admin@example.com'', phone = [],
               password = ''admin'', nickname = ''Administrator'', avatar = [],
               is_admin = True, favorites = []\<rparr>] [],
            ex_disk [(USERS_FILE, ex_users_doc [ex_user 4 False [], ex_user 9 False [],
              \<lparr>userId = 10, email = ''admin@example.com'', phone = [],
               password = ''admin'', nickname = ''Administrator'', avatar = [],
               is_admin = True, favorites = []\<rparr>])])"
    using Storage_init_without_admin [OF lu lp na i w]
    by (simp add: ex_storage_def ex_disk_def ex_users_doc_def fun_eq_iff)
  show ?thesis
    using Storage_init_admin_count [OF run lu] run lu na
    by (simp add: no_admin_count)
qed

subsection \<open>Round trip through the documents\<close>





text \<open>
  The encoder writes the quote, the backslash and the line feed escaped and the bytes
  outside ASCII as they are, and the scanner reads the literal back.
\<close>

lemma encode_nickname_example:
  "py_encode_basestring [CHR 0x22, CHR 0x5C, CHR 0x0A, CHR 0xE7, CHR 0x8E, CHR 0x8B]
     = [CHR 0x22, CHR 0x5C, CHR 0x22, CHR 0x5C, CHR 0x5C, CHR 0x5C, CHR ''n'',
        CHR 0xE7, CHR 0x8E, CHR 0x8B, CHR 0x22]
   \<and> load_string [CHR 0x22, CHR 0x5C, CHR 0x22, CHR 0x5C, CHR 0x5C, CHR 0x5C, CHR ''n'',
        CHR 0xE7, CHR 0x8E, CHR 0x8B, CHR 0x22]
     = Inr [CHR 0x22, CHR 0x5C, CHR 0x0A, CHR 0xE7, CHR 0x8E, CHR 0x8B]"
  by (simp add: py_encode_basestring_def escape_char_def load_string_def BACKSLASH_def
      err_bind_simps)


subsection \<open>Deleting a user\<close>

lemma save_both_ok:
  assumes "writable d (products_file s)" and "writable d (users_file s)"
  shows "\<exists>d'. err_bind (save_products s d) (\<lambda>d1.
              err_bind (save_users s d1) (\<lambda>d2. Inr (s, d2))) = Inr (s, d')"
  using assms by (simp add: save_products_ok save_users_ok err_bind_simps)

lemma del_user_runs:
  assumes "idx < length (users s)" and "\<not> is_admin (users s ! idx)"
    and "writable d (products_file s)" and "writable d (users_file s)"
  shows "\<exists>d'. del_user s d (idx # sel) True =
           Inr (s\<lparr>products := filter (\<lambda>p. sellerId p \<noteq> userId (users s ! idx)) (products s),
                  users := take idx (users s) @ drop (Suc idx) (users s)\<rparr>, d')"
proof -
  let ?s2 = "s\<lparr>products := filter (\<lambda>p. sellerId p \<noteq> userId (users s ! idx)) (products s),
                users := take idx (users s) @ drop (Suc idx) (users s)\<rparr>"
  have "\<exists>d'. err_bind (save_products ?s2 d) (\<lambda>d1.
              err_bind (save_users ?s2 d1) (\<lambda>d2. Inr (?s2, d2))) = Inr (?s2, d')"
    by (rule save_both_ok) (simp_all add: assms)
  then show ?thesis
    using assms(1,2) by (simp add: del_user_def Let_def)
qed

lemma del_user_refuses_admin:
  "idx < length (users s) \<Longrightarrow> is_admin (users s ! idx) \<Longrightarrow>
   del_user s d (idx # sel) answer = Inr (s, d)"
  by (simp add: del_user_def Let_def)

text \<open>
  Claim C4. Let the administrator select the user at position \<open>idx\<close> of the users
  collection. If that user is not an administrator and the deletion is confirmed (both
  documents writable), the handler returns with that entry removed from the users, all
  other users kept in order, and with exactly the products whose \<open>sellerId\<close> differs
  from that user's id kept, in order. If that user is an administrator, the handler
  returns the collections and the disk unchanged, whatever the answer to the dialog.
\<close>

theorem del_user_cascade:
  assumes "idx < length (users s)"
  shows "(\<not> is_admin (users s ! idx) \<and> writable d (products_file s) \<and> writable d (users_file s) \<longrightarrow>
           (\<exists>s' d'. del_user s d (idx # sel) True = Inr (s', d')
              \<and> users s' = take idx (users s) @ drop (Suc idx) (users s)
              \<and> products s' = filter (\<lambda>p. sellerId p \<noteq> userId (users s ! idx)) (products s)
              \<and> set (products s') = {p \<in> set (products s). sellerId p \<noteq> userId (users s ! idx)}
              \<and> length (users s') + 1 = length (users s)
              \<and> users_file s' = users_file s \<and> products_file s' = products_file s))
       \<and> (is_admin (users s ! idx) \<longrightarrow> del_user s d (idx # sel) answer = Inr (s, d))"
proof (intro conjI impI)
  assume h: "\<not> is_admin (users s ! idx) \<and> writable d (products_file s) \<and> writable d (users_file s)"
  let ?s2 = "s\<lparr>products := filter (\<lambda>p. sellerId p \<noteq> userId (users s ! idx)) (products s),
                users := take idx (users s) @ drop (Suc idx) (users s)\<rparr>"
  obtain d' where run: "del_user s d (idx # sel) True = Inr (?s2, d')"
    using del_user_runs [OF assms, of d sel] h by blast
  have len: "length (users ?s2) + 1 = length (users s)"
    using assms by simp
  have "users ?s2 = take idx (users s) @ drop (Suc idx) (users s)
      \<and> products ?s2 = filter (\<lambda>p. sellerId p \<noteq> userId (users s ! idx)) (products s)
      \<and> set (products ?s2) = {p \<in> set (products s). sellerId p \<noteq> userId (users s ! idx)}
      \<and> users_file ?s2 = users_file s \<and> products_file ?s2 = products_file s"
    by simp
  with run len show "\<exists>s' d'. del_user s d (idx # sel) True = Inr (s', d')
              \<and> users s' = take idx (users s) @ drop (Suc idx) (users s)
              \<and> products s' = filter (\<lambda>p. sellerId p \<noteq> userId (users s ! idx)) (products s)
              \<and> set (products s') = {p \<in> set (products s). sellerId p \<noteq> userId (users s ! idx)}
              \<and> length (users s') + 1 = length (users s)
              \<and> users_file s' = users_file s \<and> products_file s' = products_file s"
    by blast
next
  assume "is_admin (users s ! idx)"
  then show "del_user s d (idx # sel) answer = Inr (s, d)"
    using assms by (rule del_user_refuses_admin [rotated])
qed

theorem del_user_cascade_witness:
  "(0::nat) < length (users (ex_storage [ex_user 10 False [], ex_user 11 False [], ex_user 1 True []]
                 [ex_product 101 10 (Finite 12.5), ex_product 102 11 (Finite 12.5)]))
   \<and> (\<exists>s' d'. del_user (ex_storage [ex_user 10 False [], ex_user 11 False [], ex_user 1 True []]
                 [ex_product 101 10 (Finite 12.5), ex_product 102 11 (Finite 12.5)]) (ex_disk []) [0] True = Inr (s', d')
          \<and> users s' = [ex_user 11 False [], ex_user 1 True []]
          \<and> products s' = [ex_product 102 11 (Finite 12.5)])
   \<and> del_user (ex_storage [ex_user 1 True [], ex_user 11 False []] [ex_product 101 1 (Finite 12.5)])
        (ex_disk []) [0] True
       = Inr (ex_storage [ex_user 1 True [], ex_user 11 False []] [ex_product 101 1 (Finite 12.5)], ex_disk [])"
proof -
  let ?s = "ex_storage [ex_user 10 False [], ex_user 11 False [], ex_user 1 True []]
                 [ex_product 101 10 (Finite 12.5), ex_product 102 11 (Finite 12.5)]"
  let ?t = "ex_storage [ex_user 1 True [], ex_user 11 False []] [ex_product 101 1 (Finite 12.5)]"
  have a: "0 < length (users ?s)" and b: "0 < length (users ?t)"
    by (simp_all add: ex_storage_def)
  have c: "\<not> is_admin (users ?s ! 0) \<and> writable (ex_disk []) (products_file ?s)
      \<and> writable (ex_disk []) (users_file ?s)"
    by (simp add: ex_storage_def ex_user_def ex_disk_def)
  have e: "is_admin (users ?t ! 0)"
    by (simp add: ex_storage_def ex_user_def)
  have f: "take 0 (users ?s) @ drop (Suc 0) (users ?s) = [ex_user 11 False [], ex_user 1 True []]"
    "filter (\<lambda>p. sellerId p \<noteq> userId (users ?s ! 0)) (products ?s) = [ex_product 102 11 (Finite 12.5)]"
    by (simp_all add: ex_storage_def ex_user_def ex_product_def)
  show ?thesis
    using del_user_cascade [OF a, of "ex_disk []" "[]"]
      del_user_cascade [OF b, of "ex_disk []" "[]" True] a c e
    unfolding f by blast
qed

subsection \<open>Deleting a product\<close>

lemma remove_from_favorites_remove1:
  "remove_from_favorites pid us = map (\<lambda>u. u\<lparr>favorites := remove1 pid (favorites u)\<rparr>) us"
  by (simp add: remove_from_favorites_def remove1_idem)

lemma remove1_distinct_filter: "distinct xs \<Longrightarrow> remove1 x xs = filter (\<lambda>y. y \<noteq> x) xs"
proof (induction xs)
  case Nil
  show ?case by simp
next
  case (Cons a xs)
  then have "a = x \<Longrightarrow> filter (\<lambda>y. y \<noteq> x) xs = xs"
    by (auto intro: filter_True)
  with Cons show ?case by simp
qed

lemma confirm_delete_runs:
  assumes "writable d (products_file s)" and "writable d (users_file s)"
  shows "\<exists>d'. confirm_delete (Some cu) s d product True =
           Inr (s\<lparr>products := filter (\<lambda>p. productId p \<noteq> productId product) (products s),
                  users := remove_from_favorites (productId product) (users s)\<rparr>, d')"
proof -
  let ?s2 = "s\<lparr>products := filter (\<lambda>p. productId p \<noteq> productId product) (products s),
                users := remove_from_favorites (productId product) (users s)\<rparr>"
  have "\<exists>d'. err_bind (save_products ?s2 d) (\<lambda>d1.
              err_bind (save_users ?s2 d1) (\<lambda>d2. Inr (?s2, d2))) = Inr (?s2, d')"
    by (rule save_both_ok) (simp_all add: assms)
  then show ?thesis
    by (simp add: confirm_delete_def ensure_login_def Let_def)
qed

lemma del_product_admin_runs:
  assumes "idx < length (products s)"
    and "writable d (products_file s)" and "writable d (users_file s)"
  shows "\<exists>d'. del_product_admin s d (idx # sel) True =
           Inr (s\<lparr>products := filter (\<lambda>p. productId p \<noteq> productId (products s ! idx)) (products s),
                  users := remove_from_favorites (productId (products s ! idx)) (users s)\<rparr>, d')"
proof -
  let ?s2 = "s\<lparr>products := filter (\<lambda>p. productId p \<noteq> productId (products s ! idx)) (products s),
                users := remove_from_favorites (productId (products s ! idx)) (users s)\<rparr>"
  have "\<exists>d'. err_bind (save_products ?s2 d) (\<lambda>d1.
              err_bind (save_users ?s2 d1) (\<lambda>d2. Inr (?s2, d2))) = Inr (?s2, d')"
    by (rule save_both_ok) (simp_all add: assms)
  then show ?thesis
    using assms(1) by (simp add: del_product_admin_def Let_def)
qed


text \<open>
  What the two handlers that delete a product do, by its owner (\<open>confirm_delete\<close>,
  logged in and confirmed) or by the administrator (\<open>del_product_admin\<close>, confirmed),
  both documents writable: every product of that \<open>productId\<close> is removed and all others
  are kept in order, and the first occurrence of the id is removed from every user's
  favorites and nothing else of any user is changed. Where no user's favorites holds an
  id twice, every occurrence of the id is thereby removed and all other entries are
  kept; a user whose favorites is \<open>[pid]\<close> is left with empty favorites.
\<close>

theorem delete_product_cleanup:
  assumes "writable d (products_file s)" and "writable d (users_file s)"
    and "s' = s\<lparr>products := filter (\<lambda>p. productId p \<noteq> pid) (products s),
                 users := map (\<lambda>u. u\<lparr>favorites := remove1 pid (favorites u)\<rparr>) (users s)\<rparr>"
  shows "(productId product = pid \<longrightarrow>
            (\<exists>d'. confirm_delete (Some cu) s d product True = Inr (s', d')))
       \<and> (idx < length (products s) \<and> productId (products s ! idx) = pid \<longrightarrow>
            (\<exists>d'. del_product_admin s d (idx # sel) True = Inr (s', d')))
       \<and> ((\<forall>u \<in> set (users s). distinct (favorites u)) \<longrightarrow>
            users s' = map (\<lambda>u. u\<lparr>favorites := filter (\<lambda>f. f \<noteq> pid) (favorites u)\<rparr>) (users s)
            \<and> (\<forall>u' \<in> set (users s'). pid \<notin> set (favorites u')))
       \<and> (\<forall>i < length (users s). favorites (users s ! i) = [pid] \<longrightarrow>
            favorites (users s' ! i) = [])"
proof (intro conjI impI allI)
  assume "productId product = pid"
  then show "\<exists>d'. confirm_delete (Some cu) s d product True = Inr (s', d')"
    using confirm_delete_runs [OF assms(1,2), of cu product]
    by (simp add: assms(3) remove_from_favorites_remove1)
next
  assume "idx < length (products s) \<and> productId (products s ! idx) = pid"
  then show "\<exists>d'. del_product_admin s d (idx # sel) True = Inr (s', d')"
    using del_product_admin_runs [OF _ assms(1,2), of idx sel]
    by (simp add: assms(3) remove_from_favorites_remove1)
next
  assume dist: "\<forall>u \<in> set (users s). distinct (favorites u)"
  then show eq: "users s' = map (\<lambda>u. u\<lparr>favorites := filter (\<lambda>f. f \<noteq> pid) (favorites u)\<rparr>) (users s)"
    by (simp add: assms(3) remove1_distinct_filter)
  then show "\<forall>u' \<in> set (users s'). pid \<notin> set (favorites u')"
    by auto
next
  fix i assume "i < length (users s)" and "favorites (users s ! i) = [pid]"
  then show "favorites (users s' ! i) = []"
    by (simp add: assms(3))
qed

theorem delete_product_cleanup_witness:
  "writable (ex_disk []) PRODUCTS_FILE \<and> writable (ex_disk []) USERS_FILE
   \<and> (\<exists>d'. confirm_delete (Some (ex_user 20 False [201]))
              (ex_storage [ex_user 20 False [201], ex_user 21 False [7, 201, 8]]
                 [ex_product 201 20 (Finite 12.5), ex_product 7 20 (Finite 12.5)])
              (ex_disk []) (ex_product 201 20 (Finite 12.5)) True
            = Inr (ex_storage [ex_user 20 False [], ex_user 21 False [7, 8]] [ex_product 7 20 (Finite 12.5)], d'))
   \<and> (\<exists>d'. del_product_admin
              (ex_storage [ex_user 20 False [201], ex_user 21 False [7, 201, 8]]
                 [ex_product 201 20 (Finite 12.5), ex_product 7 20 (Finite 12.5)])
              (ex_disk []) [0] True
            = Inr (ex_storage [ex_user 20 False [], ex_user 21 False [7, 8]] [ex_product 7 20 (Finite 12.5)], d'))"
proof -
  let ?s = "ex_storage [ex_user 20 False [201], ex_user 21 False [7, 201, 8]]
                 [ex_product 201 20 (Finite 12.5), ex_product 7 20 (Finite 12.5)]"
  let ?s' = "ex_storage [ex_user 20 False [], ex_user 21 False [7, 8]] [ex_product 7 20 (Finite 12.5)]"
  have w1: "writable (ex_disk []) (products_file ?s)"
    and w2: "writable (ex_disk []) (users_file ?s)"
    by (simp_all add: ex_disk_def)
  have w: "writable (ex_disk []) PRODUCTS_FILE \<and> writable (ex_disk []) USERS_FILE"
    by (simp add: ex_disk_def)
  have eq: "?s' = ?s\<lparr>products := filter (\<lambda>p. productId p \<noteq> 201) (products ?s),
                 users := map (\<lambda>u. u\<lparr>favorites := remove1 201 (favorites u)\<rparr>) (users ?s)\<rparr>"
    by (simp add: ex_storage_def ex_user_def ex_product_def)
  have pre: "productId (ex_product 201 20 (Finite 12.5)) = 201"
    "0 < length (products ?s) \<and> productId (products ?s ! 0) = 201"
    by (simp_all add: ex_storage_def ex_product_def)
  show ?thesis
    using delete_product_cleanup [OF w1 w2 eq, of "ex_product 201 20 (Finite 12.5)" "ex_user 20 False [201]" 0 "[]"]
      pre w
    by blast
qed

subsection \<open>Favorites after the delete paths\<close>

lemma no_dangling_favorites_iff:
  "no_dangling_favorites s \<longleftrightarrow>
     (\<forall>u \<in> set (users s). \<forall>f \<in> set (favorites u). \<exists>p \<in> set (products s). productId p = f)"
  by (simp add: no_dangling_favorites_def list_all_iff list_ex_iff)

text \<open>
  The two handlers that delete a product keep the favorites free of dangling ids,
  given that no favorites list holds an id twice.
\<close>

lemma product_delete_keeps_favorites:
  assumes "no_dangling_favorites s"
    and "\<forall>u \<in> set (users s). distinct (favorites u)"
  shows "no_dangling_favorites
           (s\<lparr>products := filter (\<lambda>p. productId p \<noteq> pid) (products s),
              users := remove_from_favorites pid (users s)\<rparr>)"
proof -
  have "\<exists>p \<in> set (filter (\<lambda>p. productId p \<noteq> pid) (products s)). productId p = f"
    if "u \<in> set (users s)" and "f \<in> set (remove1 pid (favorites u))" for u f
  proof -
    have "distinct (favorites u)"
      using assms(2) that(1) by blast
    then have "f \<in> set (favorites u)" and "f \<noteq> pid"
      using that(2) by (auto simp: remove1_distinct_filter)
    then show ?thesis
      using assms(1) that(1) by (fastforce simp: no_dangling_favorites_iff)
  qed
  then show ?thesis
    by (auto simp: no_dangling_favorites_iff remove_from_favorites_remove1)
qed

text \<open>
  Claim C1. The administrator deletes user 10, who sells product 101; user 11 holds 101
  in the favorites. Before the deletion no favorite dangles and no favorites list holds
  an id twice. \<open>del_user\<close> removes the seller and product 101 and leaves the favorites of
  user 11 as they were: 101 now names no product.
\<close>

theorem del_user_leaves_dangling_favorite:
  "no_dangling_favorites
     (ex_storage [ex_user 1 True [], ex_user 10 False [], ex_user 11 False [101]]
        [ex_product 101 10 (Finite 12.5)])
   \<and> map_sum id fst
       (del_user (ex_storage [ex_user 1 True [], ex_user 10 False [], ex_user 11 False [101]]
          [ex_product 101 10 (Finite 12.5)]) (ex_disk []) [1] True)
     = Inr (ex_storage [ex_user 1 True [], ex_user 11 False [101]] [])
   \<and> \<not> no_dangling_favorites (ex_storage [ex_user 1 True [], ex_user 11 False [101]] [])"
  by (simp add: del_user_def no_dangling_favorites_def ex_storage_def ex_user_def
      ex_product_def ex_disk_def save_products_def save_users_def write_json_def
      err_bind_simps Let_def)

subsection \<open>Image importer\<close>

lemma candidate_loop_stop:
  "\<not> py_exists fs (py_join IMAGES_DIR c) \<Longrightarrow> candidate_loop fs nm ext c i = c"
  by (subst candidate_loop.simps) simp

















text \<open>
  What the importer does return: \<^verbatim>\<open>None\<close> for the empty path and for a path that does
  not exist, with nothing printed and nothing changed; and \<^verbatim>\<open>None\<close> after an exception
  of its body whenever the diagnostic can be printed. An exception of the \<^verbatim>\<open>print\<close>
  itself is the only way it raises.
\<close>

lemma copy_image_to_storage_results:
  "(src = [] \<longrightarrow> copy_image_to_storage fs src = (fs, Inr None))
   \<and> (\<not> py_exists fs src \<longrightarrow> copy_image_to_storage fs src = (fs, Inr None))
   \<and> (\<forall>fs' e msg. copy_image_body fs src = (fs', Inl (e, msg))
          \<and> stdout fs' (''copy image failed: '' @ msg @ [CHR 0x0A]) = None
        \<longrightarrow> copy_image_to_storage fs src = (fs', Inr None))
   \<and> (\<forall>fs' raised. copy_image_to_storage fs src = (fs', Inl raised) \<longrightarrow>
          (\<exists>e msg. copy_image_body fs src = (fs', Inl (e, msg))
             \<and> stdout fs' (''copy image failed: '' @ msg @ [CHR 0x0A]) = Some raised))"
proof (intro conjI impI allI)
  assume "src = []"
  then show "copy_image_to_storage fs src = (fs, Inr None)"
    by (simp add: copy_image_to_storage_def copy_image_body_def)
next
  assume "\<not> py_exists fs src"
  then show "copy_image_to_storage fs src = (fs, Inr None)"
    by (simp add: copy_image_to_storage_def copy_image_body_def)
next
  fix fs' e msg
  assume "copy_image_body fs src = (fs', Inl (e, msg))
      \<and> stdout fs' (''copy image failed: '' @ msg @ [CHR 0x0A]) = None"
  then show "copy_image_to_storage fs src = (fs', Inr None)"
    by (simp add: copy_image_to_storage_def py_print_def)
next
  fix fs' raised
  assume "copy_image_to_storage fs src = (fs', Inl raised)"
  then show "\<exists>e msg. copy_image_body fs src = (fs', Inl (e, msg))
             \<and> stdout fs' (''copy image failed: '' @ msg @ [CHR 0x0A]) = Some raised"
    by (auto simp: copy_image_to_storage_def py_print_def
        split: prod.splits sum.splits option.splits)
qed

text \<open>
  Claim C8. The source is a directory whose name holds a character outside ASCII, and
  the console encodes ASCII only. The path exists, \<^verbatim>\<open>shutil.copy2\<close> raises
  \<^verbatim>\<open>IsADirectoryError\<close>, the handler prints the exception, whose text holds the path,
  and that \<^verbatim>\<open>print\<close> raises \<^verbatim>\<open>UnicodeEncodeError\<close>: the importer raises to its caller
  instead of returning \<^verbatim>\<open>None\<close>.
\<close>

theorem copy_image_to_storage_raises_from_print:
  "copy_image_to_storage
     ((ex_fsys [''/tmp/caf'' @ [CHR 0xC3, CHR 0xA9]]
         (Failed False (''[Errno 21] Is a directory: '' @ [CHR 0x27] @ ''/tmp/caf''
            @ [CHR 0xC3, CHR 0xA9, CHR 0x27])))
        \<lparr>stdout := ascii_stdout\<rparr>)
     (''/tmp/caf'' @ [CHR 0xC3, CHR 0xA9])
   = ((ex_fsys [''/tmp/caf'' @ [CHR 0xC3, CHR 0xA9]]
         (Failed False (''[Errno 21] Is a directory: '' @ [CHR 0x27] @ ''/tmp/caf''
            @ [CHR 0xC3, CHR 0xA9, CHR 0x27])))
        \<lparr>stdout := ascii_stdout\<rparr>,
      Inl UnicodeEncodeError)"
  by (simp add: copy_image_to_storage_def copy_image_body_def py_exists_def py_basename_def
      py_splitext_def rfind_def candidate_loop_stop py_join_def IMAGES_DIR_def
      shutil_copy2_def py_print_def ascii_stdout_def ex_fsys_def Let_def)




end
